theory Spec2Isabelle
  imports Complex_Main
begin

section \<open>Numbers\<close>

text \<open>
  The program is TypeScript; every quantity below is a JavaScript \<open>number\<close>. The
  embedding reads a \<open>number\<close> as a real, so \<open>Math.exp\<close> is \<^const>\<open>exp\<close>,
  \<open>Math.sin\<close> is \<^const>\<open>sin\<close>, \<open>Math.sqrt\<close> is \<^const>\<open>sqrt\<close>, \<open>Math.pow\<close> is
  \<^const>\<open>powr\<close> and \<open>Math.round\<close> (round half up) is \<^const>\<open>round\<close>, which is
  \<open>\<lfloor>x + 1/2\<rfloor>\<close>. The rounding error of IEEE doubles is outside the model.
  A call of \<open>Math.random()\<close> or \<open>Date.now()\<close> is a parameter of the function
  that makes the call: the value the call returned.
\<close>

section \<open>App.tsx: status and metrics\<close>

datatype ModelStatus = COLLAPSED | STABLE | EXPLODING

record TrainingMetrics =
  loss :: real
  vramUsage :: real
  gradientNorm :: real
  intelligenceScore :: real

text \<open>The \<open>status\<close> memo of the component (App.tsx, lines 75 to 79).\<close>

definition status :: "real \<Rightarrow> ModelStatus" where
  "status rank =
     (if rank < 30 then COLLAPSED
      else if rank > 70 then EXPLODING
      else STABLE)"

text \<open>
  The four locals \<open>loss\<close>, \<open>vram\<close>, \<open>iq\<close>, \<open>grad\<close> of the \<open>metrics\<close> memo after
  its three-way branch (lines 87 to 105), in this order. \<open>rnd\<close> is the value of the
  \<open>Math.random()\<close> call of the stable branch.
\<close>

definition metrics_locals :: "real \<Rightarrow> ModelStatus \<Rightarrow> real \<Rightarrow> real \<times> real \<times> real \<times> real" where
  "metrics_locals rank st rnd =
     (if st = COLLAPSED then
        (2.5 + (30 - rank) * 0.1, 12 + rank * 0.1, rank * 2, 0.001)
      else if st = EXPLODING then
        (0.5 + exp ((rank - 70) / 5), 40 + (rank - 70) * 2, 100 - (rank - 70) * 3,
         10 powr ((rank - 60) / 5))
      else
        (0.4 - \<bar>50 - rank\<bar> * 0.01, 24 + (rank - 30) * 0.4, 140 - \<bar>50 - rank\<bar>,
         1.0 + (rnd - 0.5) * 0.1))"

text \<open>The object the memo returns (lines 107 to 112).\<close>

definition metrics :: "real \<Rightarrow> ModelStatus \<Rightarrow> real \<Rightarrow> TrainingMetrics" where
  "metrics rank st rnd =
     (case metrics_locals rank st rnd of
        (loss0, vram0, iq0, grad0) \<Rightarrow>
          \<lparr> loss = max 0 loss0,
            vramUsage = min 80 vram0,
            gradientNorm = grad0,
            intelligenceScore = max 0 iq0 \<rparr>)"

text \<open>
  The component evaluates \<open>metrics\<close> with the \<open>status\<close> derived from the same rank
  (the memo depends on \<open>[rank, status]\<close>).
\<close>

definition app_metrics :: "real \<Rightarrow> real \<Rightarrow> TrainingMetrics" where
  "app_metrics rank rnd = metrics rank (status rank) rnd"

text \<open>
  The gradient card (line 288):
  \<open>metrics.gradientNorm > 1000 ? "NaN" : metrics.gradientNorm.toFixed(3)\<close>.
  The formatted text is kept as the number it formats.
\<close>

datatype GradText = NaN_text | Fixed3 real

definition grad_card :: "TrainingMetrics \<Rightarrow> GradText" where
  "grad_card m = (if gradientNorm m > 1000 then NaN_text else Fixed3 (gradientNorm m))"

section \<open>App.tsx: the simulation loop\<close>

text \<open>
  The local \<open>targetRank\<close> of \<open>animate\<close> after its two clamping statements (lines 147
  to 158). \<open>now_ms\<close> is the value of \<open>Date.now()\<close>, \<open>rnd\<close> the value of
  \<open>Math.random()\<close>.
\<close>

definition targetRank :: "real \<Rightarrow> real \<Rightarrow> real" where
  "targetRank now_ms rnd =
     (let now = now_ms / 1000;
          base = sin (now * 0.5) * 30;
          jitter = sin (now * 2.5) * 10;
          noise = (rnd - 0.5) * 5;
          t0 = 50 + base + jitter + noise;
          t1 = (if t0 < 0 then 0 else t0);
          t2 = (if t1 > 100 then 100 else t1)
      in t2)"

text \<open>
  The updater handed to \<open>setRank\<close> (lines 161 to 164). The product and the sum are
  exact here; the program rounds each to a double before \<open>Math.round\<close>, which can
  move the result by one when \<open>prev + diff * 0.05\<close> is within a rounding error of a
  half. What is proved of this function below does not depend on which way such a
  tie falls.
\<close>

definition setRank_update :: "real \<Rightarrow> real \<Rightarrow> real" where
  "setRank_update target prev =
     (let diff = target - prev in of_int (round (prev + diff * 0.05)))"

text \<open>
  One call of \<open>animate(time)\<close> on the pair of \<open>timeRef.current\<close> and the rank state.
  \<open>deltaTime\<close> is computed by the source and never read.
\<close>

definition animate :: "real \<Rightarrow> real \<Rightarrow> real \<Rightarrow> real \<times> real \<Rightarrow> real \<times> real" where
  "animate time now_ms rnd s =
     (case s of (timeRef, prev) \<Rightarrow>
        (if timeRef = 0 then time else timeRef,
         setRank_update (targetRank now_ms rnd) prev))"

text \<open>
  The target as the specification words it, for comparison with \<^const>\<open>targetRank\<close>:
  50 + 30 sin(0.5 t) + 10 sin(2.5 t) + n, clamped to [0,100].
\<close>

definition spec_target :: "real \<Rightarrow> real \<Rightarrow> real" where
  "spec_target t n = max 0 (min 100 (50 + 30 * sin (0.5 * t) + 10 * sin (2.5 * t) + n))"

section \<open>MatrixParticles.tsx: particles\<close>

text \<open>
  A colour is the \<open>rgba(r, g, b, a)\<close> string of the source, kept as its four components.
  The fields of \<open>Particle\<close> carry the prefix \<open>p_\<close>, in the order of the class.
\<close>

datatype Color = Rgba nat nat nat real

record Particle =
  p_x :: real
  p_y :: real
  p_vx :: real
  p_vy :: real
  p_size :: real
  p_color :: Color
  p_baseX :: real
  p_baseY :: real

text \<open>
  The constructor (lines 17 to 26). \<open>r1\<close> to \<open>r5\<close> are the values of its five
  \<open>Math.random()\<close> calls, in the order of the calls.
\<close>

definition Particle_new :: "real \<Rightarrow> real \<Rightarrow> real \<Rightarrow> real \<Rightarrow> real \<Rightarrow> real \<Rightarrow> real \<Rightarrow> Particle" where
  "Particle_new width height r1 r2 r3 r4 r5 =
     \<lparr> p_x = r1 * width,
       p_y = r2 * height,
       p_vx = (r3 - 0.5) * 2,
       p_vy = (r4 - 0.5) * 2,
       p_size = r5 * 2 + 1,
       p_color = Rgba 100 255 218 0.5,
       p_baseX = r1 * width,
       p_baseY = r2 * height \<rparr>"

text \<open>The branch \<open>rank < 30\<close> of \<open>update\<close> (lines 36 to 45).\<close>

definition collapse_physics :: "real \<Rightarrow> real \<Rightarrow> real \<Rightarrow> Particle \<Rightarrow> Particle" where
  "collapse_physics rank centerX centerY p =
     (let dx = centerX - p_x p;
          dy = centerY - p_y p
      in p\<lparr> p_vx := (p_vx p + dx * 0.005) * 0.9,
            p_vy := (p_vy p + dy * 0.005) * 0.9,
            p_color := Rgba 100 116 139 (0.5 + (30 - rank) / 60) \<rparr>)"

text \<open>
  The branch \<open>rank > 70\<close> (lines 46 to 62); \<open>r1\<close> and \<open>r2\<close> are its two random draws.
\<close>

definition explosion_physics :: "real \<Rightarrow> real \<Rightarrow> real \<Rightarrow> real \<Rightarrow> real \<Rightarrow> Particle \<Rightarrow> Particle" where
  "explosion_physics rank centerX centerY r1 r2 p =
     (let instability = (rank - 70) / 10;
          vx1 = p_vx p + (r1 - 0.5) * instability;
          vy1 = p_vy p + (r2 - 0.5) * instability;
          dx = p_x p - centerX;
          dy = p_y p - centerY;
          dist = sqrt (dx * dx + dy * dy)
      in p\<lparr> p_vx := (if dist < 100 then vx1 + dx * 0.01 else vx1),
            p_vy := (if dist < 100 then vy1 + dy * 0.01 else vy1),
            p_color := Rgba 244 63 94 (0.5 + (rank - 70) / 60) \<rparr>)"

text \<open>The remaining branch (lines 63 to 80); \<open>now_ms\<close> is the value of \<open>Date.now()\<close>.\<close>

definition stable_physics :: "real \<Rightarrow> Particle \<Rightarrow> Particle" where
  "stable_physics now_ms p =
     (let time = now_ms * 0.001;
          targetX = p_baseX p + sin (time + p_baseY p) * 20;
          targetY = p_baseY p + cos (time + p_baseX p) * 20;
          dx = targetX - p_x p;
          dy = targetY - p_y p
      in p\<lparr> p_vx := (p_vx p + dx * 0.01) * 0.95,
            p_vy := (p_vy p + dy * 0.01) * 0.95,
            p_color := Rgba 34 211 238 0.6 \<rparr>)"

text \<open>
  The four statements under \<open>Wrap around for chaos\<close> (lines 88 to 91), one after the
  other: the second test of each axis reads what the first one wrote.
\<close>

definition wrap_around :: "real \<Rightarrow> real \<Rightarrow> Particle \<Rightarrow> Particle" where
  "wrap_around width height p =
     (let x1 = (if p_x p < 0 then width else p_x p);
          x2 = (if x1 > width then 0 else x1);
          y1 = (if p_y p < 0 then height else p_y p);
          y2 = (if y1 > height then 0 else y1)
      in p\<lparr> p_x := x2, p_y := y2 \<rparr>)"

text \<open>
  \<open>Particle.update\<close> (lines 28 to 92): the physics of the regime, the Euler step, and
  the wraparound when \<open>rank > 70\<close>. The particle is mutated in place in the source and
  returned here.
\<close>

definition update :: "real \<Rightarrow> real \<Rightarrow> real \<Rightarrow> real \<Rightarrow> real \<Rightarrow> real \<Rightarrow> Particle \<Rightarrow> Particle" where
  "update rank width height now_ms r1 r2 p =
     (let centerX = width / 2;
          centerY = height / 2;
          p1 = (if rank < 30 then collapse_physics rank centerX centerY p
                else if rank > 70 then explosion_physics rank centerX centerY r1 r2 p
                else stable_physics now_ms p);
          p2 = p1\<lparr> p_x := p_x p1 + p_vx p1, p_y := p_y p1 + p_vy p1 \<rparr>
      in if rank > 70 then wrap_around width height p2 else p2)"

text \<open>
  What \<open>update\<close> draws at its end (lines 95 to 98): the fill style, the centre and the
  radius of the disc.
\<close>

definition arc_of :: "real \<Rightarrow> Particle \<Rightarrow> Color \<times> real \<times> real \<times> real" where
  "arc_of rank p = (p_color p, p_x p, p_y p, p_size p * (rank / 50))"

section \<open>MatrixParticles.tsx: the frame\<close>

text \<open>The test of the inner loop body (lines 142 to 145).\<close>

definition close_pair :: "Particle \<Rightarrow> Particle \<Rightarrow> bool" where
  "close_pair a b =
     (let dx = p_x a - p_x b;
          dy = p_y a - p_y b;
          dist = sqrt (dx * dx + dy * dy)
      in dist < 60)"

text \<open>
  The two nested loops (lines 140 to 150): \<open>i\<close> from 0, \<open>j\<close> from \<open>i + 1\<close>, both below
  \<open>p.length\<close>. The pair \<open>(i, j)\<close> stands for the segment that \<open>moveTo(p[i])\<close> and
  \<open>lineTo(p[j])\<close> add to the path, in the order the loops add them.
\<close>

definition connections :: "Particle list \<Rightarrow> (nat \<times> nat) list" where
  "connections p =
     concat (map (\<lambda>i. map (\<lambda>j. (i, j))
                          (filter (\<lambda>j. close_pair (p ! i) (p ! j)) [i + 1 ..< length p]))
                 [0 ..< length p])"

record Frame =
  particles :: "Particle list"
  arcs :: "(Color \<times> real \<times> real \<times> real) list"
  links :: "(nat \<times> nat) list"

text \<open>
  One call of \<open>animate\<close> in the canvas component (lines 127 to 152): every particle is
  updated and drawn, then the connections are stroked when \<open>rank < 80\<close>. The
  translucent rectangle painted first reads and writes no particle and has no
  counterpart here. \<open>width\<close> and
  \<open>height\<close> are \<open>canvas.width\<close> and \<open>canvas.height\<close>; \<open>clock k\<close> is what \<open>Date.now()\<close>
  returns while particle \<open>k\<close> is updated, \<open>rnd (2 * k)\<close> and \<open>rnd (2 * k + 1)\<close> are
  the two random draws of particle \<open>k\<close>.
\<close>

definition animate_frame ::
  "real \<Rightarrow> real \<Rightarrow> real \<Rightarrow> (nat \<Rightarrow> real) \<Rightarrow> (nat \<Rightarrow> real) \<Rightarrow> Particle list \<Rightarrow> Frame" where
  "animate_frame rank width height clock rnd ps =
     (let ps' = map (\<lambda>k. update rank width height (clock k) (rnd (2 * k)) (rnd (2 * k + 1)) (ps ! k))
                    [0 ..< length ps]
      in \<lparr> particles = ps',
           arcs = map (arc_of rank) ps',
           links = (if rank < 80 then connections ps' else []) \<rparr>)"

text \<open>
  \<open>canvas.parentElement?.clientWidth || 600\<close>: the client size is absent when there is
  no parent element, and an absent or zero size gives the default.
\<close>

definition canvas_dim :: "nat option \<Rightarrow> nat \<Rightarrow> nat" where
  "canvas_dim client dflt =
     (case client of None \<Rightarrow> dflt | Some n \<Rightarrow> if n = 0 then dflt else n)"

record Field =
  canvas_width :: nat
  canvas_height :: nat
  population :: "Particle list"

text \<open>
  \<open>resize\<close> (lines 117 to 122): the canvas takes the size of its parent and
  \<open>particles.current\<close> is assigned an array of 150 new particles. Particle \<open>k\<close> takes the
  five random draws \<open>rnd (5 * k)\<close> to \<open>rnd (5 * k + 4)\<close>.
\<close>

definition resize :: "nat option \<Rightarrow> nat option \<Rightarrow> (nat \<Rightarrow> real) \<Rightarrow> Field \<Rightarrow> Field" where
  "resize clientWidth clientHeight rnd s =
     (let w = canvas_dim clientWidth 600;
          h = canvas_dim clientHeight 400
      in \<lparr> canvas_width = w,
           canvas_height = h,
           population =
             map (\<lambda>k. Particle_new (real w) (real h)
                         (rnd (5 * k)) (rnd (5 * k + 1)) (rnd (5 * k + 2))
                         (rnd (5 * k + 3)) (rnd (5 * k + 4)))
                 [0 ..< 150] \<rparr>)"

text \<open>The Euclidean distance of two particles, as the specification words it.\<close>

definition euclid :: "Particle \<Rightarrow> Particle \<Rightarrow> real" where
  "euclid a b = sqrt ((p_x a - p_x b)\<^sup>2 + (p_y a - p_y b)\<^sup>2)"

section \<open>Status\<close>

text \<open>
  C1. The derived status is Collapsed when rank < 30, Stable when 30 \<le> rank \<le> 70 and
  Exploding when rank > 70; rank = 30 and rank = 70 are both Stable. It holds for every
  rank, so in particular for every rank in [0,100].
\<close>

theorem status_regimes:
  "(rank < 30 \<longrightarrow> status rank = COLLAPSED) \<and>
   (30 \<le> rank \<and> rank \<le> 70 \<longrightarrow> status rank = STABLE) \<and>
   (70 < rank \<longrightarrow> status rank = EXPLODING) \<and>
   status 30 = STABLE \<and> status 70 = STABLE"
  by (simp add: status_def)

theorem status_regimes_witness:
  "(0::real) < 30 \<and> status 0 = COLLAPSED \<and>
   (30::real) \<le> 50 \<and> (50::real) \<le> 70 \<and> status 50 = STABLE \<and>
   (70::real) < 100 \<and> status 100 = EXPLODING"
  using status_regimes [of 0] status_regimes [of 50] status_regimes [of 100]
  by simp

section \<open>Metrics\<close>

text \<open>
  C5. At rank 90 the status is Exploding, the loss is 0.5 + e^4, the memory local is 80
  and so is the returned vramUsage, the capability is max(0, 100 - (90 - 70) * 3) = 40,
  the gradient norm is 10^6, and the gradient card shows the divergent text because
  10^6 exceeds 1000.
\<close>

theorem metrics_at_90:
  "status 90 = EXPLODING \<and>
   loss (app_metrics 90 rnd) = 0.5 + exp 4 \<and>
   fst (snd (metrics_locals 90 (status 90) rnd)) = 80 \<and>
   vramUsage (app_metrics 90 rnd) = 80 \<and>
   intelligenceScore (app_metrics 90 rnd) = max 0 (100 - (90 - 70) * 3) \<and>
   intelligenceScore (app_metrics 90 rnd) = 40 \<and>
   gradientNorm (app_metrics 90 rnd) = 10 ^ 6 \<and>
   grad_card (app_metrics 90 rnd) = NaN_text"
proof -
  have st: "status 90 = EXPLODING"
    by (simp add: status_def)
  have pw: "(10::real) powr 6 = 10 ^ 6"
    by (simp add: powr_numeral)
  have loc: "metrics_locals 90 EXPLODING rnd = (0.5 + exp 4, 80, 40, 10 ^ 6)"
    using pw by (simp add: metrics_locals_def)
  have pos: "(0::real) \<le> 0.5 + exp 4"
    by (simp add: add_nonneg_nonneg)
  show ?thesis
    using pos by (simp add: app_metrics_def metrics_def st loc grad_card_def max_def)
qed

text \<open>
  C6. For every rank in [0,100] and every value of the random draw, the returned
  vramUsage lies in [0,80], and the loss and the intelligenceScore are at least 0.
\<close>

theorem metrics_bounds:
  assumes "0 \<le> rank" and "rank \<le> 100"
  shows "0 \<le> vramUsage (app_metrics rank rnd) \<and> vramUsage (app_metrics rank rnd) \<le> 80 \<and>
         0 \<le> loss (app_metrics rank rnd) \<and> 0 \<le> intelligenceScore (app_metrics rank rnd)"
  using assms
  by (auto simp: app_metrics_def metrics_def metrics_locals_def status_def)

theorem metrics_bounds_witness:
  "(0::real) \<le> 10 \<and> (10::real) \<le> 100 \<and>
   0 \<le> vramUsage (app_metrics 10 0) \<and> vramUsage (app_metrics 10 0) \<le> 80 \<and>
   0 \<le> loss (app_metrics 10 0) \<and> 0 \<le> intelligenceScore (app_metrics 10 0)"
  using metrics_bounds [of 10 0]
  by simp

text \<open>
  C10. For every rank in [0,100] and every value of the random draw, the returned
  vramUsage is at least 12, although it is the memory local capped at 80 with no lower
  clamp, and 12 is attained at rank 0, in the Collapsed regime.
\<close>

theorem vram_at_least_12:
  assumes "0 \<le> rank" and "rank \<le> 100"
  shows "12 \<le> vramUsage (app_metrics rank rnd) \<and>
         vramUsage (app_metrics rank rnd) =
           min 80 (fst (snd (metrics_locals rank (status rank) rnd))) \<and>
         status 0 = COLLAPSED \<and> vramUsage (app_metrics 0 rnd) = 12"
  using assms
  by (auto simp: app_metrics_def metrics_def metrics_locals_def status_def)

theorem vram_at_least_12_witness:
  "(0::real) \<le> 45 \<and> (45::real) \<le> 100 \<and> 12 \<le> vramUsage (app_metrics 45 (1/4)) \<and>
   vramUsage (app_metrics 45 (1/4)) = 30 \<and>
   status 0 = COLLAPSED \<and> vramUsage (app_metrics 0 (1/4)) = 12"
  using vram_at_least_12 [of 45 "1/4"]
  by (simp add: metrics_locals_def status_def)

section \<open>The simulation loop\<close>

lemma targetRank_spec:
  "targetRank now_ms rnd = spec_target (now_ms / 1000) ((rnd - 0.5) * 5)"
  by (simp add: targetRank_def spec_target_def Let_def max_def min_def mult.commute)





text \<open>
  C8. On a tick, with \<open>t\<close> the clock in seconds since the epoch and \<open>u\<close> the random draw
  in [0,1), the noise \<open>n = (u - 0.5) * 5\<close> lies in [-2.5, 2.5), the target is
  50 + 30 sin(0.5 t) + 10 sin(2.5 t) + n clamped to [0,100], and the new rank is
  round(rank + (target - rank) * 0.05).
\<close>

theorem autodriver_tick:
  assumes "0 \<le> u" and "u < 1"
  shows "- 2.5 \<le> (u - 0.5) * 5 \<and> (u - 0.5) * 5 < 2.5 \<and>
         targetRank now_ms u = spec_target (now_ms / 1000) ((u - 0.5) * 5) \<and>
         snd (animate time now_ms u (timeRef, prev)) =
           of_int (round (prev + (spec_target (now_ms / 1000) ((u - 0.5) * 5) - prev) * 0.05))"
  using assms by (simp add: targetRank_spec animate_def setRank_update_def Let_def)

theorem autodriver_tick_witness:
  "(0::real) \<le> 1/4 \<and> (1/4::real) < 1 \<and>
   - 2.5 \<le> (1/4 - 0.5) * (5::real) \<and> (1/4 - 0.5) * (5::real) < 2.5 \<and>
   targetRank 0 (1/4) = spec_target (0 / 1000) ((1/4 - 0.5) * 5) \<and>
   snd (animate 16 0 (1/4) (0, 50)) =
     of_int (round (50 + (spec_target (0 / 1000) ((1/4 - 0.5) * 5) - 50) * 0.05))"
  using autodriver_tick [of "1/4" 0 16 0 50]
  by simp

section \<open>Particles\<close>

lemma sqrt_less_100: "sqrt a < 100 \<longleftrightarrow> a < 10000"
  using real_sqrt_less_iff [of a 10000] by simp

lemma sqrt_less_60: "sqrt a < 60 \<longleftrightarrow> a < 3600"
  using real_sqrt_less_iff [of a 3600] by simp

lemma wrap_bounds:
  assumes "0 \<le> width" and "0 \<le> height"
  shows "0 \<le> p_x (wrap_around width height p) \<and> p_x (wrap_around width height p) \<le> width \<and>
         0 \<le> p_y (wrap_around width height p) \<and> p_y (wrap_around width height p) \<le> height"
  using assms by (simp add: wrap_around_def Let_def)

text \<open>
  C2, as amended. In the Exploding regime (rank > 70), on a surface of non-negative
  width and height, the position after the update and its wraparound lies in the closed
  rectangle [0,width] x [0,height].
\<close>

theorem exploding_position_bounds:
  assumes "70 < rank" and "0 \<le> width" and "0 \<le> height"
  shows "0 \<le> p_x (update rank width height now_ms r1 r2 p) \<and>
         p_x (update rank width height now_ms r1 r2 p) \<le> width \<and>
         0 \<le> p_y (update rank width height now_ms r1 r2 p) \<and>
         p_y (update rank width height now_ms r1 r2 p) \<le> height"
  using assms(1) wrap_bounds [OF assms(2,3)] by (simp add: update_def Let_def)

theorem exploding_position_bounds_witness:
  "(70::real) < 90 \<and> (0::real) \<le> 600 \<and> (0::real) \<le> 400 \<and>
   0 \<le> p_x (update 90 600 400 0 (3/4) (1/4) (Particle_new 600 400 (1/2) (1/2) 0 0 0)) \<and>
   p_x (update 90 600 400 0 (3/4) (1/4) (Particle_new 600 400 (1/2) (1/2) 0 0 0)) \<le> 600 \<and>
   0 \<le> p_y (update 90 600 400 0 (3/4) (1/4) (Particle_new 600 400 (1/2) (1/2) 0 0 0)) \<and>
   p_y (update 90 600 400 0 (3/4) (1/4) (Particle_new 600 400 (1/2) (1/2) 0 0 0)) \<le> 400"
  using exploding_position_bounds
    [of 90 600 400 0 "3/4" "1/4" "Particle_new 600 400 (1/2) (1/2) 0 0 0"]
  by simp

text \<open>
  C2 as stated fails: a particle at the left edge moving left at rank 80 on a 600 by 400
  surface leaves through x < 0 and is placed at x = 600, which is the width itself and
  so outside [0,600).
\<close>

theorem exploding_position_counterexample:
  "(70::real) < 80 \<and>
   p_x (update 80 600 400 0 (1/2) (1/2) (Particle_new 600 400 0 0 0 (1/2) 0)) = 600 \<and>
   \<not> p_x (update 80 600 400 0 (1/2) (1/2) (Particle_new 600 400 0 0 0 (1/2) 0)) < 600"
  by (simp add: update_def Let_def Particle_new_def explosion_physics_def wrap_around_def
      sqrt_less_100)

section \<open>Proximity edges\<close>

lemma close_pair_euclid: "close_pair a b \<longleftrightarrow> euclid a b < 60"
  by (simp add: close_pair_def euclid_def Let_def power2_eq_square)

lemma set_connections:
  "set (connections p) = {(i, j). i < j \<and> j < length p \<and> close_pair (p ! i) (p ! j)}"
proof (rule set_eqI)
  fix e :: "nat \<times> nat"
  obtain i j where e: "e = (i, j)"
    by (cases e)
  show "e \<in> set (connections p) \<longleftrightarrow>
        e \<in> {(i, j). i < j \<and> j < length p \<and> close_pair (p ! i) (p ! j)}"
    unfolding e connections_def by (auto simp: image_iff)
qed

lemma distinct_concat_map:
  assumes "distinct xs"
    and "\<And>a. a \<in> set xs \<Longrightarrow> distinct (f a)"
    and "\<And>a b. a \<in> set xs \<Longrightarrow> b \<in> set xs \<Longrightarrow> a \<noteq> b \<Longrightarrow> set (f a) \<inter> set (f b) = {}"
  shows "distinct (concat (map f xs))"
  using assms
proof (induction xs)
  case Nil
  then show ?case by simp
next
  case (Cons a xs)
  have "distinct (concat (map f xs))"
    using Cons by simp
  moreover have "distinct (f a)"
    using Cons.prems(2) by simp
  moreover have "set (f a) \<inter> set (f b) = {}" if "b \<in> set xs" for b
    using Cons.prems(1) Cons.prems(3) [of a b] that by auto
  ultimately show ?case by auto
qed

lemma distinct_connections: "distinct (connections p)"
  unfolding connections_def
  by (rule distinct_concat_map) (auto simp: distinct_map inj_on_def)

text \<open>
  C3, as amended. On every frame with rank \<ge> 80 the proximity-edge computation is
  skipped and no connecting edge is drawn.
\<close>

theorem no_links_from_80:
  assumes "80 \<le> rank"
  shows "links (animate_frame rank width height clock rnd ps) = []"
  using assms by (simp add: animate_frame_def Let_def)

theorem no_links_from_80_witness:
  "(80::real) \<le> 80 \<and>
   links (animate_frame 80 600 400 (\<lambda>k. 0) (\<lambda>k. 1/2)
     [Particle_new 600 400 0 0 (1/2) (1/2) 0, Particle_new 600 400 (1/60) 0 (1/2) (1/2) 0]) = []"
  using no_links_from_80 [of 80 600 400 "\<lambda>k. 0" "\<lambda>k. 1/2"
     "[Particle_new 600 400 0 0 (1/2) (1/2) 0, Particle_new 600 400 (1/60) 0 (1/2) (1/2) 0]"]
  by simp

text \<open>
  C3 as stated fails: rank 75 is Exploding, and a frame at rank 75 with two resting
  particles 10 units apart draws the edge between them.
\<close>

theorem exploding_links_counterexample:
  "status 75 = EXPLODING \<and>
   links (animate_frame 75 600 400 (\<lambda>k. 0) (\<lambda>k. 1/2)
     [Particle_new 600 400 0 0 (1/2) (1/2) 0, Particle_new 600 400 (1/60) 0 (1/2) (1/2) 0])
   = [(0, 1)]"
  by (simp add: status_def animate_frame_def Let_def update_def Particle_new_def
      explosion_physics_def wrap_around_def sqrt_less_100 connections_def close_pair_def
      upt_rec [of 0] upt_rec [of 1] upt_rec [of 2])

text \<open>
  C7. On a frame with rank < 80 the edges are exactly the pairs \<open>(i, j)\<close>, \<open>i < j\<close>, of
  particles of the population whose Euclidean distance after their update of this frame
  is below 60, and no pair occurs twice; on a frame with rank > 80 there is no edge. The
  particles of the frame are the updated particles of the population, in their order.
\<close>

theorem proximity_edges:
  "(rank < 80 \<longrightarrow>
      set (links (animate_frame rank width height clock rnd ps)) =
        {(i, j). i < j \<and> j < length ps \<and>
           euclid (update rank width height (clock i) (rnd (2 * i)) (rnd (2 * i + 1)) (ps ! i))
                  (update rank width height (clock j) (rnd (2 * j)) (rnd (2 * j + 1)) (ps ! j))
             < 60} \<and>
      distinct (links (animate_frame rank width height clock rnd ps))) \<and>
   (80 < rank \<longrightarrow> links (animate_frame rank width height clock rnd ps) = []) \<and>
   particles (animate_frame rank width height clock rnd ps) =
     map (\<lambda>k. update rank width height (clock k) (rnd (2 * k)) (rnd (2 * k + 1)) (ps ! k))
         [0 ..< length ps]"
proof -
  let ?upd = "\<lambda>k. update rank width height (clock k) (rnd (2 * k)) (rnd (2 * k + 1)) (ps ! k)"
  let ?ps' = "map ?upd [0 ..< length ps]"
  have edges: "set (connections ?ps') =
      {(i, j). i < j \<and> j < length ps \<and> euclid (?upd i) (?upd j) < 60}"
    unfolding set_connections by (auto simp: close_pair_euclid)
  show ?thesis
    using edges by (simp add: animate_frame_def Let_def distinct_connections)
qed

theorem proximity_edges_witness:
  "(10::real) < 80 \<and>
   links (animate_frame 10 600 400 (\<lambda>k. 0) (\<lambda>k. 0)
     [Particle_new 600 400 0 0 (1/2) (1/2) 0,
      Particle_new 600 400 (1/60) 0 (1/2) (1/2) 0,
      Particle_new 600 400 (1/2) (1/2) (1/2) (1/2) 0]) = [(0, 1)] \<and>
   distinct (links (animate_frame 10 600 400 (\<lambda>k. 0) (\<lambda>k. 0)
     [Particle_new 600 400 0 0 (1/2) (1/2) 0,
      Particle_new 600 400 (1/60) 0 (1/2) (1/2) 0,
      Particle_new 600 400 (1/2) (1/2) (1/2) (1/2) 0])) \<and>
   map p_x (particles (animate_frame 10 600 400 (\<lambda>k. 0) (\<lambda>k. 0)
     [Particle_new 600 400 0 0 (1/2) (1/2) 0,
      Particle_new 600 400 (1/60) 0 (1/2) (1/2) 0,
      Particle_new 600 400 (1/2) (1/2) (1/2) (1/2) 0])) = [1.35, 11.305, 300] \<and>
   map p_y (particles (animate_frame 10 600 400 (\<lambda>k. 0) (\<lambda>k. 0)
     [Particle_new 600 400 0 0 (1/2) (1/2) 0,
      Particle_new 600 400 (1/60) 0 (1/2) (1/2) 0,
      Particle_new 600 400 (1/2) (1/2) (1/2) (1/2) 0])) = [0.9, 0.9, 200] \<and>
   (80::real) < 95 \<and>
   links (animate_frame 95 600 400 (\<lambda>k. 0) (\<lambda>k. 0)
     [Particle_new 600 400 0 0 (1/2) (1/2) 0,
      Particle_new 600 400 (1/60) 0 (1/2) (1/2) 0,
      Particle_new 600 400 (1/2) (1/2) (1/2) (1/2) 0]) = []"
proof -
  let ?ps = "[Particle_new 600 400 0 0 (1/2) (1/2) 0,
      Particle_new 600 400 (1/60) 0 (1/2) (1/2) 0,
      Particle_new 600 400 (1/2) (1/2) (1/2) (1/2) 0]"
  note low = proximity_edges [of 10 600 400 "\<lambda>k. 0" "\<lambda>k. 0" ?ps]
  note high = proximity_edges [of 95 600 400 "\<lambda>k. 0" "\<lambda>k. 0" ?ps]
  have three: "[0 ..< 3] = [0, 1, 2::nat]"
    by (simp add: upt_rec)
  have upd: "particles (animate_frame 10 600 400 (\<lambda>k. 0) (\<lambda>k. 0) ?ps) =
      [update 10 600 400 0 0 0 (Particle_new 600 400 0 0 (1/2) (1/2) 0),
       update 10 600 400 0 0 0 (Particle_new 600 400 (1/60) 0 (1/2) (1/2) 0),
       update 10 600 400 0 0 0 (Particle_new 600 400 (1/2) (1/2) (1/2) (1/2) 0)]"
    using low by (simp add: three)
  have pos: "map p_x (particles (animate_frame 10 600 400 (\<lambda>k. 0) (\<lambda>k. 0) ?ps))
        = [1.35, 11.305, 300]"
      "map p_y (particles (animate_frame 10 600 400 (\<lambda>k. 0) (\<lambda>k. 0) ?ps))
        = [0.9, 0.9, 200]"
    unfolding upd
    by (simp_all add: update_def Let_def Particle_new_def collapse_physics_def)
  have edge: "links (animate_frame 10 600 400 (\<lambda>k. 0) (\<lambda>k. 0) ?ps) = [(0, 1)]"
    by (simp add: animate_frame_def Let_def three update_def Particle_new_def
        collapse_physics_def connections_def close_pair_def sqrt_less_60
        upt_rec [of 0] upt_rec [of 1] upt_rec [of 2] upt_rec [of 3])
  have none: "links (animate_frame 95 600 400 (\<lambda>k. 0) (\<lambda>k. 0) ?ps) = []"
    using high by simp
  show ?thesis
    using pos edge none by simp
qed

section \<open>Resize\<close>

lemma canvas_dim_pos: "0 < dflt \<Longrightarrow> 0 < canvas_dim client dflt"
  by (simp add: canvas_dim_def split: option.split)

text \<open>
  C9. With every random draw in [0,1), a resize from any earlier state (the first one
  included) leaves exactly 150 particles, each inside [0,width) x [0,height) of the new
  canvas size, and none of them depends on the earlier population.
\<close>

theorem resize_population:
  assumes "\<forall>n. 0 \<le> rnd n \<and> rnd n < 1"
  shows "length (population (resize cw ch rnd s)) = 150 \<and>
         (\<forall>p \<in> set (population (resize cw ch rnd s)).
            0 \<le> p_x p \<and> p_x p < real (canvas_width (resize cw ch rnd s)) \<and>
            0 \<le> p_y p \<and> p_y p < real (canvas_height (resize cw ch rnd s))) \<and>
         population (resize cw ch rnd s) = population (resize cw ch rnd s')"
proof -
  have w: "0 < canvas_dim cw 600" and h: "0 < canvas_dim ch 400"
    by (simp_all add: canvas_dim_pos)
  have len: "length (population (resize cw ch rnd s)) = 150"
    by (simp add: resize_def Let_def)
  have fresh: "population (resize cw ch rnd s) = population (resize cw ch rnd s')"
    by (simp add: resize_def Let_def)
  have inside: "\<forall>p \<in> set (population (resize cw ch rnd s)).
           0 \<le> p_x p \<and> p_x p < real (canvas_width (resize cw ch rnd s)) \<and>
           0 \<le> p_y p \<and> p_y p < real (canvas_height (resize cw ch rnd s))"
    using assms w h by (auto simp: resize_def Let_def Particle_new_def)
  show ?thesis
    using len fresh inside by blast
qed

theorem resize_population_witness:
  "(0::real) \<le> 1/2 \<and> (1/2::real) < 1 \<and>
   length (population (resize (Some 800) None (\<lambda>n. 1/2)
     \<lparr>canvas_width = 300, canvas_height = 150, population = []\<rparr>)) = 150 \<and>
   population (resize (Some 800) None (\<lambda>n. 1/2)
       \<lparr>canvas_width = 300, canvas_height = 150, population = []\<rparr>) ! 149
     \<in> set (population (resize (Some 800) None (\<lambda>n. 1/2)
       \<lparr>canvas_width = 300, canvas_height = 150, population = []\<rparr>)) \<and>
   0 \<le> p_x (population (resize (Some 800) None (\<lambda>n. 1/2)
       \<lparr>canvas_width = 300, canvas_height = 150, population = []\<rparr>) ! 149) \<and>
   p_x (population (resize (Some 800) None (\<lambda>n. 1/2)
       \<lparr>canvas_width = 300, canvas_height = 150, population = []\<rparr>) ! 149)
     < real (canvas_width (resize (Some 800) None (\<lambda>n. 1/2)
       \<lparr>canvas_width = 300, canvas_height = 150, population = []\<rparr>)) \<and>
   0 \<le> p_y (population (resize (Some 800) None (\<lambda>n. 1/2)
       \<lparr>canvas_width = 300, canvas_height = 150, population = []\<rparr>) ! 149) \<and>
   p_y (population (resize (Some 800) None (\<lambda>n. 1/2)
       \<lparr>canvas_width = 300, canvas_height = 150, population = []\<rparr>) ! 149)
     < real (canvas_height (resize (Some 800) None (\<lambda>n. 1/2)
       \<lparr>canvas_width = 300, canvas_height = 150, population = []\<rparr>)) \<and>
   population (resize (Some 800) None (\<lambda>n. 1/2)
     \<lparr>canvas_width = 300, canvas_height = 150, population = []\<rparr>) =
   population (resize (Some 800) None (\<lambda>n. 1/2)
     \<lparr>canvas_width = 640, canvas_height = 480,
      population = [Particle_new 640 480 0 0 0 0 0]\<rparr>) \<and>
   canvas_width (resize (Some 800) None (\<lambda>n. 1/2)
     \<lparr>canvas_width = 300, canvas_height = 150, population = []\<rparr>) = 800 \<and>
   canvas_height (resize (Some 800) None (\<lambda>n. 1/2)
     \<lparr>canvas_width = 300, canvas_height = 150, population = []\<rparr>) = 400"
proof -
  have draws: "\<forall>n::nat. (0::real) \<le> (\<lambda>n. 1/2) n \<and> (\<lambda>n. 1/2) n < (1::real)"
    by simp
  note inst = resize_population [OF draws, of "Some 800" None
      "\<lparr>canvas_width = 300, canvas_height = 150, population = []\<rparr>"
      "\<lparr>canvas_width = 640, canvas_height = 480,
        population = [Particle_new 640 480 0 0 0 0 0]\<rparr>"]
  from inst have len: "length (population (resize (Some 800) None (\<lambda>n. 1/2)
     \<lparr>canvas_width = 300, canvas_height = 150, population = []\<rparr>)) = 150"
    by blast
  have mem: "population (resize (Some 800) None (\<lambda>n. 1/2)
       \<lparr>canvas_width = 300, canvas_height = 150, population = []\<rparr>) ! 149
     \<in> set (population (resize (Some 800) None (\<lambda>n. 1/2)
       \<lparr>canvas_width = 300, canvas_height = 150, population = []\<rparr>))"
    by (rule nth_mem) (simp add: len)
  have dims: "canvas_width (resize (Some 800) None (\<lambda>n. 1/2)
       \<lparr>canvas_width = 300, canvas_height = 150, population = []\<rparr>) = 800"
     "canvas_height (resize (Some 800) None (\<lambda>n. 1/2)
       \<lparr>canvas_width = 300, canvas_height = 150, population = []\<rparr>) = 400"
    by (simp_all add: resize_def canvas_dim_def)
  show ?thesis
    using inst mem dims by auto
qed

end
